theory Spec2Isabelle
  imports Main
begin

section \<open>Exceptions, collaborators and the world they act on\<close>

text \<open>
  The request handlers of \<^verbatim>\<open>main.py\<close> orchestrate three external systems (the
  chat-log and document-metadata database, the Chroma vector store, the language model)
  through helper functions that live in \<^verbatim>\<open>db_utils\<close>, \<^verbatim>\<open>chroma_utils\<close> and the
  LangChain libraries. The handlers are embedded as state-passing functions; what each
  helper call answers (a value, or an exception) is a parameter, collected in the
  record \<open>env\<close>, so that every theorem holds for every behaviour of the helpers.
  Calls to \<^verbatim>\<open>logging\<close> are left out: they have no effect on the results.
\<close>

datatype py_exception = Exception string
  \<comment> \<open>an exception raised by a helper; the string is \<^verbatim>\<open>str(e)\<close>\<close>

datatype raised = HTTPException nat string | Propagated py_exception
  \<comment> \<open>what leaves a handler: an \<^verbatim>\<open>HTTPException(status_code, detail)\<close> it raises itself,
      or a helper's exception that no \<^verbatim>\<open>except\<close> clause catches\<close>

fun str_exception :: "py_exception \<Rightarrow> string" where
  "str_exception (Exception m) = m"

type_synonym file_id = string
type_synonym history = "(string \<times> string) list"
type_synonym json = "(string \<times> string) list"

datatype response = Dict "(string \<times> string) list" string | NonDict string
  \<comment> \<open>the value of \<^verbatim>\<open>rag_chain.invoke(...)\<close>: a dict (its items, and its \<^verbatim>\<open>str()\<close>),
      or any other object (its \<^verbatim>\<open>str()\<close>)\<close>

record rag_chain =
  llm_model :: string

datatype write_outcome = OpenFails py_exception | CopyFails py_exception | Written

datatype event =
    GetChatHistory string
  | GetRagChain string
  | Invoke rag_chain string history
  | InsertApplicationLogs string string string string
  | SaveUpload string
  | InsertDocumentRecord string
  | IndexDocumentToChroma string file_id
  | DeleteDocumentRecord file_id
  | DeleteDocFromChroma file_id
  | Remove string

record world =
  documents :: "(file_id \<times> string) list"
  chroma :: "file_id list"
  application_logs :: "(string \<times> string \<times> string \<times> string) list"
  files :: "string set"
  calls :: "event list"

record env =
  uuid4 :: string
  get_chat_history :: "string \<Rightarrow> py_exception + history"
  build_chain :: "nat \<Rightarrow> string \<Rightarrow> py_exception option"
  rag_invoke :: "nat \<Rightarrow> rag_chain \<Rightarrow> string \<Rightarrow> history \<Rightarrow> py_exception + response"
  insert_application_logs :: "string \<Rightarrow> string \<Rightarrow> string \<Rightarrow> string \<Rightarrow> py_exception option"
  copyfileobj :: "string \<Rightarrow> write_outcome"
  insert_document_record :: "string \<Rightarrow> py_exception + file_id"
  index_document_to_chroma :: "string \<Rightarrow> file_id \<Rightarrow> py_exception + bool"
  delete_document_record :: "file_id \<Rightarrow> py_exception + bool"
  delete_doc_from_chroma :: "file_id \<Rightarrow> py_exception + bool"

definition log_call :: "event \<Rightarrow> world \<Rightarrow> world" where
  "log_call ev w = w\<lparr>calls := calls w @ [ev]\<rparr>"

definition document_ids :: "world \<Rightarrow> file_id set" where
  "document_ids w = fst ` set (documents w)"

text \<open>
  Modelled from the spec: the effect of the helpers of \<^verbatim>\<open>db_utils\<close> and
  \<^verbatim>\<open>chroma_utils\<close> on the stores, which are not part of the two source files. The spec
  gives their interfaces as \<^verbatim>\<open>insert_document_record(filename) -> file_id\<close>,
  \<^verbatim>\<open>delete_document_record(file_id) -> bool\<close>, \<^verbatim>\<open>index(file_path, file_id) -> bool\<close>,
  \<^verbatim>\<open>delete(file_id) -> bool\<close> and \<^verbatim>\<open>insert_log(session_id, question, answer, model)\<close>.
  A call that answers \<open>True\<close> (or returns normally) has done its work on the store; one
  that answers \<open>False\<close> or raises has left the store as it was.
\<close>

definition db_insert_document :: "file_id \<Rightarrow> string \<Rightarrow> world \<Rightarrow> world" where
  "db_insert_document fid filename w = w\<lparr>documents := documents w @ [(fid, filename)]\<rparr>"

definition db_delete_document :: "file_id \<Rightarrow> world \<Rightarrow> world" where
  "db_delete_document fid w = w\<lparr>documents := filter (\<lambda>d. fst d \<noteq> fid) (documents w)\<rparr>"

definition chroma_index :: "file_id \<Rightarrow> world \<Rightarrow> world" where
  "chroma_index fid w = w\<lparr>chroma := chroma w @ [fid]\<rparr>"

definition chroma_delete :: "file_id \<Rightarrow> world \<Rightarrow> world" where
  "chroma_delete fid w = w\<lparr>chroma := filter (\<lambda>i. i \<noteq> fid) (chroma w)\<rparr>"

definition db_insert_log :: "string \<Rightarrow> string \<Rightarrow> string \<Rightarrow> string \<Rightarrow> world \<Rightarrow> world" where
  "db_insert_log sid q a m w = w\<lparr>application_logs := application_logs w @ [(sid, q, a, m)]\<rparr>"

text \<open>
  Modelled from the spec: FastAPI's mapping of a handler's outcome to an HTTP status
  (the framework is not part of the source files). A normal return is answered with 200,
  an \<^verbatim>\<open>HTTPException\<close> with its status code, any other exception with 500.
\<close>

fun http_status :: "raised + 'a \<Rightarrow> nat" where
  "http_status (Inr _) = 200"
| "http_status (Inl (HTTPException code _)) = code"
| "http_status (Inl (Propagated _)) = 500"

section \<open>\<^verbatim>\<open>langchain_utils.get_rag_chain\<close>\<close>

definition allowed_models :: "string list" where
  "allowed_models = [''gemini-2.0-flash'', ''gemini-2.0-pro'']"

text \<open>
  \<^verbatim>\<open>get_rag_chain\<close> picks the model and then builds the language-model client, the
  retriever and the chains (lines 56 to 68). Those constructors are library code that may
  raise; whether they do, at the \<open>n\<close>-th call and for the model picked, is the helper
  parameter \<open>build_chain\<close>.
\<close>

definition get_rag_chain :: "env \<Rightarrow> nat \<Rightarrow> string \<Rightarrow> py_exception + rag_chain" where
  "get_rag_chain e n model =
     (let model_to_use = (if model \<in> set allowed_models then model else ''gemini-2.0-flash'')
      in case build_chain e n model_to_use of
           Some err \<Rightarrow> Inl err
         | None \<Rightarrow> Inr \<lparr>llm_model = model_to_use\<rparr>)"

section \<open>\<^verbatim>\<open>main.chat\<close>\<close>

record QueryInput =
  question :: string
  session_id :: "string option"
  model :: string

record QueryResponse =
  answer :: string
  response_session_id :: string
  response_model :: string

text \<open>Python's \<^verbatim>\<open>a or b\<close> on \<^verbatim>\<open>dict.get\<close> results: \<^verbatim>\<open>None\<close> and \<^verbatim>\<open>""\<close> are falsy.\<close>

fun truthy :: "string option \<Rightarrow> bool" where
  "truthy None = False"
| "truthy (Some s) = (s \<noteq> [])"

definition extract_answer :: "response \<Rightarrow> string" where
  "extract_answer response =
     (case response of
        Dict items str_response \<Rightarrow>
          (if truthy (map_of items ''answer'') then the (map_of items ''answer'')
           else if truthy (map_of items ''output_text'') then the (map_of items ''output_text'')
           else str_response)
      | NonDict str_response \<Rightarrow> str_response)"

definition effective_session_id :: "env \<Rightarrow> QueryInput \<Rightarrow> string" where
  "effective_session_id e query_input =
     (if truthy (session_id query_input) then the (session_id query_input) else uuid4 e)"

definition force_supported :: "string \<Rightarrow> string" where
  "force_supported model_value =
     (if model_value \<noteq> ''gemini-2.0-flash'' then ''gemini-2.0-flash'' else model_value)"

definition model_candidates :: "string \<Rightarrow> string list" where
  "model_candidates requested = [force_supported requested, ''gemini-2.0-flash'']"

definition fetch_history :: "env \<Rightarrow> string \<Rightarrow> history" where
  "fetch_history e sid = (case get_chat_history e sid of Inr h \<Rightarrow> h | Inl _ \<Rightarrow> [])"

text \<open>
  The \<^verbatim>\<open>for candidate in model_candidates\<close> loop. The loop variables are
  \<open>(last_error, answer, model_value)\<close>; \<open>n\<close> counts the attempts, so that two attempts
  with the same arguments may end differently. Both \<^verbatim>\<open>get_rag_chain(candidate)\<close> and
  \<^verbatim>\<open>rag_chain.invoke(...)\<close> stand inside the \<^verbatim>\<open>try\<close>: when the first raises, the chain
  is never invoked and the loop goes on to the next candidate.
\<close>

fun try_candidates ::
  "env \<Rightarrow> string \<Rightarrow> history \<Rightarrow> nat \<Rightarrow> string list \<Rightarrow>
   py_exception option \<times> string option \<times> string \<Rightarrow> world \<Rightarrow>
   (py_exception option \<times> string option \<times> string) \<times> world" where
  "try_candidates e q h n [] vars w = (vars, w)"
| "try_candidates e q h n (candidate # rest) (last_error, ans, model_value) w =
     (let w1 = log_call (GetRagChain candidate) w
      in case get_rag_chain e n candidate of
           Inl err \<Rightarrow> try_candidates e q h (Suc n) rest (Some err, ans, model_value) w1
         | Inr chain \<Rightarrow>
            (let w2 = log_call (Invoke chain q h) w1
             in case rag_invoke e n chain q h of
                  Inr response \<Rightarrow> ((None, Some (extract_answer response), candidate), w2)
                | Inl err \<Rightarrow> try_candidates e q h (Suc n) rest (Some err, ans, model_value) w2))"

definition failure_detail :: "py_exception option \<Rightarrow> string" where
  "failure_detail last_error =
     ''RAG invocation failed: '' @ (case last_error of None \<Rightarrow> ''None'' | Some err \<Rightarrow> str_exception err)"

text \<open>Lines 83 to 91: the chat log is written inside a \<^verbatim>\<open>try\<close> whose handler only logs.\<close>

definition log_and_respond ::
  "env \<Rightarrow> string \<Rightarrow> string \<Rightarrow> string \<Rightarrow> string \<Rightarrow> world \<Rightarrow> (raised + QueryResponse) \<times> world" where
  "log_and_respond e sid q ans model_value w =
     (let w1 = log_call (InsertApplicationLogs sid q ans model_value) w;
          w2 = (case insert_application_logs e sid q ans model_value of
                  None \<Rightarrow> db_insert_log sid q ans model_value w1
                | Some _ \<Rightarrow> w1)
      in (Inr \<lparr>answer = ans, response_session_id = sid, response_model = model_value\<rparr>, w2))"

definition chat :: "env \<Rightarrow> QueryInput \<Rightarrow> world \<Rightarrow> (raised + QueryResponse) \<times> world" where
  "chat e query_input w =
     (let sid = effective_session_id e query_input;
          w1 = log_call (GetChatHistory sid) w;
          chat_history = fetch_history e sid;
          model_value = force_supported (model query_input);
          ((last_error, ans, model_value'), w2) =
             try_candidates e (question query_input) chat_history 0
               (model_candidates (model query_input)) (None, None, model_value) w1
      in if last_error \<noteq> None \<or> ans = None
         then (Inl (HTTPException 500 (failure_detail last_error)), w2)
         else log_and_respond e sid (question query_input) (the ans) model_value' w2)"

text \<open>Reading the record of calls: what a handler added, and the models it tried.\<close>

definition new_calls :: "world \<Rightarrow> world \<Rightarrow> event list" where
  "new_calls w w' = drop (length (calls w)) (calls w')"

fun attempted :: "event list \<Rightarrow> string list" where
  "attempted [] = []"
| "attempted (GetRagChain candidate # evs) = candidate # attempted evs"
| "attempted (_ # evs) = attempted evs"

fun invoked_models :: "event list \<Rightarrow> string list" where
  "invoked_models [] = []"
| "invoked_models (Invoke chain _ _ # evs) = llm_model chain # invoked_models evs"
| "invoked_models (_ # evs) = invoked_models evs"

fun invoked_histories :: "event list \<Rightarrow> history list" where
  "invoked_histories [] = []"
| "invoked_histories (Invoke _ _ h # evs) = h # invoked_histories evs"
| "invoked_histories (_ # evs) = invoked_histories evs"

definition attempt_outcome :: "env \<Rightarrow> nat \<Rightarrow> string \<Rightarrow> string \<Rightarrow> history \<Rightarrow> py_exception + response" where
  \<comment> \<open>how the body of the \<^verbatim>\<open>try\<close> ends: building the chain raises, or invoking it raises,
      or the chain answers\<close>
  "attempt_outcome e n candidate q h =
     (case get_rag_chain e n candidate of
        Inl err \<Rightarrow> Inl err
      | Inr chain \<Rightarrow> rag_invoke e n chain q h)"

definition attempt_calls :: "env \<Rightarrow> nat \<Rightarrow> string \<Rightarrow> string \<Rightarrow> history \<Rightarrow> event list" where
  \<comment> \<open>the calls of one pass through the body of the \<^verbatim>\<open>try\<close>\<close>
  "attempt_calls e n candidate q h =
     GetRagChain candidate #
       (case get_rag_chain e n candidate of
          Inl _ \<Rightarrow> []
        | Inr chain \<Rightarrow> [Invoke chain q h])"

definition candidate_outcome :: "env \<Rightarrow> QueryInput \<Rightarrow> nat \<Rightarrow> py_exception + response" where
  \<comment> \<open>how the body of the \<^verbatim>\<open>try\<close> ends for the \<open>n\<close>-th entry of \<^verbatim>\<open>model_candidates\<close>\<close>
  "candidate_outcome e query_input n =
     attempt_outcome e n (model_candidates (model query_input) ! n) (question query_input)
       (fetch_history e (effective_session_id e query_input))"

section \<open>\<^verbatim>\<open>main.upload_and_index_document\<close>\<close>

text \<open>
  \<^verbatim>\<open>os.path.splitext\<close> (POSIX): the extension starts at the last dot after the last
  slash, unless only dots stand between that slash and the dot.
\<close>

fun rfind_from :: "char \<Rightarrow> string \<Rightarrow> int \<Rightarrow> int \<Rightarrow> int" where
  "rfind_from c [] i found = found"
| "rfind_from c (x # xs) i found = rfind_from c xs (i + 1) (if x = c then i else found)"

definition rfind :: "string \<Rightarrow> char \<Rightarrow> int" where
  "rfind p c = rfind_from c p 0 (- 1)"

function splitext_loop :: "string \<Rightarrow> nat \<Rightarrow> nat \<Rightarrow> string \<times> string" where
  "splitext_loop p filenameIndex dotIndex =
     (if filenameIndex < dotIndex
      then (if take 1 (drop filenameIndex p) \<noteq> ''.''
            then (take dotIndex p, drop dotIndex p)
            else splitext_loop p (Suc filenameIndex) dotIndex)
      else (p, []))"
  by pat_completeness auto
termination
  by (relation "measure (\<lambda>(p, filenameIndex, dotIndex). dotIndex - filenameIndex)") auto

declare splitext_loop.simps [simp del]

definition splitext :: "string \<Rightarrow> string \<times> string" where
  "splitext p =
     (let sepIndex = rfind p CHR ''/'';
          dotIndex = rfind p CHR ''.''
      in if dotIndex > sepIndex
         then splitext_loop p (nat (sepIndex + 1)) (nat dotIndex)
         else (p, []))"

text \<open>\<^verbatim>\<open>str.lower\<close>, on the ASCII letters.\<close>

definition lower_char :: "char \<Rightarrow> char" where
  "lower_char c =
     (if (65::nat) \<le> of_char c \<and> of_char c \<le> (90::nat) then char_of (of_char c + (32::nat)) else c)"

definition lower :: "string \<Rightarrow> string" where
  "lower s = map lower_char s"

definition allowed_extensions :: "string list" where
  "allowed_extensions = [''.pdf'', ''.docx'', ''.html'']"

definition file_extension :: "string \<Rightarrow> string" where
  "file_extension filename = lower (snd (splitext filename))"

fun join_with :: "string \<Rightarrow> string list \<Rightarrow> string" where
  "join_with sep [] = []"
| "join_with sep [x] = x"
| "join_with sep (x # y # ys) = x @ sep @ join_with sep (y # ys)"

definition path_join :: "string \<Rightarrow> string \<Rightarrow> string" where
  "path_join a b =
     (if take 1 b = ''/'' then b
      else if a = [] \<or> take 1 (rev a) = ''/'' then a @ b
      else a @ ''/'' @ b)"

definition documents_dir :: string where
  "documents_dir = ''data/documents''"

definition temp_file_path :: "string \<Rightarrow> string" where
  "temp_file_path filename = path_join documents_dir (''temp_'' @ filename)"

text \<open>
  The body of the \<^verbatim>\<open>try\<close> block. \<^verbatim>\<open>open(..., "wb")\<close> creates the file before anything is
  copied, so the file exists unless opening it failed.
\<close>

definition upload_body :: "env \<Rightarrow> string \<Rightarrow> world \<Rightarrow> (raised + json) \<times> world" where
  "upload_body e filename w =
     (let path = temp_file_path filename;
          w1 = log_call (SaveUpload path) w
      in case copyfileobj e path of
           OpenFails err \<Rightarrow> (Inl (Propagated err), w1)
         | CopyFails err \<Rightarrow> (Inl (Propagated err), w1\<lparr>files := insert path (files w1)\<rparr>)
         | Written \<Rightarrow>
            (let w2 = log_call (InsertDocumentRecord filename) (w1\<lparr>files := insert path (files w1)\<rparr>)
             in case insert_document_record e filename of
                  Inl err \<Rightarrow> (Inl (Propagated err), w2)
                | Inr fid \<Rightarrow>
                   (let w3 = log_call (IndexDocumentToChroma path fid) (db_insert_document fid filename w2)
                    in case index_document_to_chroma e path fid of
                         Inl err \<Rightarrow> (Inl (Propagated err), w3)
                       | Inr success \<Rightarrow>
                          (if success
                           then (Inr [(''message'', ''File '' @ filename @ '' has been successfully uploaded and indexed.''),
                                      (''file_id'', fid)],
                                 chroma_index fid w3)
                           else
                             (let w4 = log_call (DeleteDocumentRecord fid) w3
                              in case delete_document_record e fid of
                                   Inl err \<Rightarrow> (Inl (Propagated err), w4)
                                 | Inr deleted \<Rightarrow>
                                    (Inl (HTTPException 500 (''Failed to index '' @ filename @ ''.'')),
                                     if deleted then db_delete_document fid w4 else w4))))))"

text \<open>The \<^verbatim>\<open>finally\<close> clause: it runs whatever the body did, and keeps the body's outcome.\<close>

definition upload_finally :: "string \<Rightarrow> world \<Rightarrow> world" where
  "upload_finally path w =
     (if path \<in> files w then (log_call (Remove path) w)\<lparr>files := files w - {path}\<rparr> else w)"

definition upload_and_index_document :: "env \<Rightarrow> string \<Rightarrow> world \<Rightarrow> (raised + json) \<times> world" where
  "upload_and_index_document e filename w =
     (if file_extension filename \<notin> set allowed_extensions
      then (Inl (HTTPException 400
                  (''Unsupported file type. Allowed types are: '' @ join_with '', '' allowed_extensions)), w)
      else
        (let w0 = (if documents_dir \<notin> files w then w\<lparr>files := insert documents_dir (files w)\<rparr> else w);
             (result, w1) = upload_body e filename w0
         in (result, upload_finally (temp_file_path filename) w1)))"

section \<open>\<^verbatim>\<open>main.delete_document\<close>\<close>

definition delete_document :: "env \<Rightarrow> file_id \<Rightarrow> world \<Rightarrow> (raised + json) \<times> world" where
  "delete_document e fid w =
     (let w1 = log_call (DeleteDocFromChroma fid) w
      in case delete_doc_from_chroma e fid of
           Inl err \<Rightarrow> (Inl (Propagated err), w1)
         | Inr chroma_delete_success \<Rightarrow>
            (if chroma_delete_success
             then
               (let w2 = log_call (DeleteDocumentRecord fid) (chroma_delete fid w1)
                in case delete_document_record e fid of
                     Inl err \<Rightarrow> (Inl (Propagated err), w2)
                   | Inr db_delete_success \<Rightarrow>
                      (if db_delete_success
                       then (Inr [(''message'', ''Successfully deleted document with file_id '' @ fid @ '' from the system.'')],
                             db_delete_document fid w2)
                       else (Inr [(''error'', ''Deleted from Chroma but failed to delete document with file_id '' @ fid
                                              @ '' from the database.'')], w2)))
             else (Inr [(''error'', ''Failed to delete document with file_id '' @ fid @ '' from Chroma.'')], w1)))"

section \<open>Concrete requests and collaborators\<close>

definition empty_world :: world where
  "empty_world = \<lparr>documents = [], chroma = [], application_logs = [], files = {}, calls = []\<rparr>"

definition env_ok :: env where
  "env_ok = \<lparr>uuid4 = ''0b7e'',
     get_chat_history = (\<lambda>_. Inr []),
     build_chain = (\<lambda>_ _. None),
     rag_invoke = (\<lambda>_ _ _ _. Inr (Dict [(''answer'', ''30 days'')] ''{answer: 30 days}'')),
     insert_application_logs = (\<lambda>_ _ _ _. None),
     copyfileobj = (\<lambda>_. Written),
     insert_document_record = (\<lambda>_. Inr ''7''),
     index_document_to_chroma = (\<lambda>_ _. Inr True),
     delete_document_record = (\<lambda>_. Inr True),
     delete_doc_from_chroma = (\<lambda>_. Inr True)\<rparr>"

definition query_pro :: QueryInput where
  "query_pro = \<lparr>question = ''What is the refund policy?'', session_id = None, model = ''gemini-2.0-pro''\<rparr>"

definition quota :: py_exception where
  "quota = Exception ''quota exceeded''"

definition timeout :: py_exception where
  "timeout = Exception ''timed out''"

definition env_all_fail :: env where
  "env_all_fail = env_ok\<lparr>rag_invoke := (\<lambda>n _ _ _. if n = 0 then Inl quota else Inl timeout)\<rparr>"

definition env_second_ok :: env where
  "env_second_ok = env_ok\<lparr>rag_invoke := (\<lambda>n _ _ _. if n = 0 then Inl quota else Inr (NonDict ''30 days''))\<rparr>"

definition db_down :: py_exception where
  "db_down = Exception ''database unavailable''"

definition env_no_history :: env where
  "env_no_history = env_ok\<lparr>get_chat_history := (\<lambda>_. Inl db_down)\<rparr>"

definition env_no_log :: env where
  "env_no_log = env_ok\<lparr>insert_application_logs := (\<lambda>_ _ _ _. Some db_down)\<rparr>"

definition env_index_fails :: env where
  "env_index_fails = env_ok\<lparr>index_document_to_chroma := (\<lambda>_ _. Inr False)\<rparr>"

definition chroma_down :: py_exception where
  "chroma_down = Exception ''vector store unavailable''"

definition env_index_raises :: env where
  "env_index_raises = env_ok\<lparr>index_document_to_chroma := (\<lambda>_ _. Inl chroma_down)\<rparr>"

definition env_chroma_raises :: env where
  "env_chroma_raises = env_ok\<lparr>delete_doc_from_chroma := (\<lambda>_. Inl chroma_down)\<rparr>"

definition bad_temperature :: py_exception where
  "bad_temperature = Exception ''temperature out of range''"

definition env_no_chain :: env where
  "env_no_chain = env_no_history\<lparr>build_chain := (\<lambda>_ _. Some bad_temperature)\<rparr>"

definition env_chroma_fails :: env where
  "env_chroma_fails = env_ok\<lparr>delete_doc_from_chroma := (\<lambda>_. Inr False)\<rparr>"

definition env_db_delete_fails :: env where
  "env_db_delete_fails = env_ok\<lparr>delete_document_record := (\<lambda>_. Inr False)\<rparr>"

definition world_with_doc :: world where
  "world_with_doc = empty_world\<lparr>documents := [(''7'', ''a.pdf'')], chroma := [''7'']\<rparr>"

section \<open>The chat handler, case by case\<close>

lemma candidates_forced: "model_candidates m = [''gemini-2.0-flash'', ''gemini-2.0-flash'']"
  by (simp add: model_candidates_def force_supported_def)

lemma chain_default: "get_rag_chain e n ''gemini-2.0-flash'' = Inr chain \<Longrightarrow> llm_model chain = ''gemini-2.0-flash''"
  by (auto simp: get_rag_chain_def allowed_models_def Let_def split: option.splits)

lemma try_two:
  "try_candidates e q h 0 [c, c] (None, None, mv) w =
     (case attempt_outcome e 0 c q h of
        Inr r \<Rightarrow> ((None, Some (extract_answer r), c), w\<lparr>calls := calls w @ attempt_calls e 0 c q h\<rparr>)
      | Inl e0 \<Rightarrow>
         (case attempt_outcome e (Suc 0) c q h of
            Inr r \<Rightarrow> ((None, Some (extract_answer r), c),
                       w\<lparr>calls := calls w @ attempt_calls e 0 c q h @ attempt_calls e (Suc 0) c q h\<rparr>)
          | Inl e1 \<Rightarrow> ((Some e1, None, mv),
                       w\<lparr>calls := calls w @ attempt_calls e 0 c q h @ attempt_calls e (Suc 0) c q h\<rparr>)))"
  by (simp add: attempt_outcome_def attempt_calls_def log_call_def Let_def split: sum.splits)

lemma outcome_0:
  "candidate_outcome e qi 0 = attempt_outcome e 0 ''gemini-2.0-flash'' (question qi)
             (fetch_history e (effective_session_id e qi))"
  by (simp add: candidate_outcome_def candidates_forced)

lemma outcome_1:
  "candidate_outcome e qi (Suc 0) = attempt_outcome e (Suc 0) ''gemini-2.0-flash'' (question qi)
             (fetch_history e (effective_session_id e qi))"
  by (simp add: candidate_outcome_def candidates_forced)

lemma respond_fst:
  "fst (log_and_respond e sid q a m w) = Inr \<lparr>answer = a, response_session_id = sid, response_model = m\<rparr>"
  by (simp add: log_and_respond_def Let_def)

lemma respond_calls:
  "calls (snd (log_and_respond e sid q a m w)) = calls w @ [InsertApplicationLogs sid q a m]"
  by (simp add: log_and_respond_def Let_def log_call_def db_insert_log_def split: option.splits)

lemma respond_logs_failed:
  "insert_application_logs e sid q a m = Some err \<Longrightarrow>
     application_logs (snd (log_and_respond e sid q a m w)) = application_logs w"
  by (simp add: log_and_respond_def Let_def log_call_def)

lemma attempted_append: "attempted (xs @ ys) = attempted xs @ attempted ys"
  by (induction xs rule: attempted.induct) simp_all

lemma invoked_models_append: "invoked_models (xs @ ys) = invoked_models xs @ invoked_models ys"
  by (induction xs rule: invoked_models.induct) simp_all

lemma invoked_histories_append: "invoked_histories (xs @ ys) = invoked_histories xs @ invoked_histories ys"
  by (induction xs rule: invoked_histories.induct) simp_all

lemma attempted_attempt: "attempted (attempt_calls e n c q h) = [c]"
  by (simp add: attempt_calls_def split: sum.splits)

lemma invoked_models_attempt:
  "set (invoked_models (attempt_calls e n ''gemini-2.0-flash'' q h)) \<subseteq> {''gemini-2.0-flash''}"
  by (auto simp: attempt_calls_def chain_default split: sum.splits)

lemma invoked_histories_attempt: "set (invoked_histories (attempt_calls e n c q h)) \<subseteq> {h}"
  by (simp add: attempt_calls_def split: sum.splits)

lemma invoked_histories_answered:
  "attempt_outcome e n c q h = Inr r \<Longrightarrow> invoked_histories (attempt_calls e n c q h) = [h]"
  by (simp add: attempt_outcome_def attempt_calls_def split: sum.splits)

lemma chat_unfold:
  "chat e qi w =
     (case candidate_outcome e qi 0 of
        Inr r \<Rightarrow>
          log_and_respond e (effective_session_id e qi) (question qi) (extract_answer r) ''gemini-2.0-flash''
            (w\<lparr>calls := calls w @ GetChatHistory (effective_session_id e qi) #
                  attempt_calls e 0 ''gemini-2.0-flash'' (question qi)
                    (fetch_history e (effective_session_id e qi))\<rparr>)
      | Inl e0 \<Rightarrow>
         (case candidate_outcome e qi (Suc 0) of
            Inr r \<Rightarrow>
              log_and_respond e (effective_session_id e qi) (question qi) (extract_answer r) ''gemini-2.0-flash''
                (w\<lparr>calls := calls w @ GetChatHistory (effective_session_id e qi) #
                      attempt_calls e 0 ''gemini-2.0-flash'' (question qi)
                        (fetch_history e (effective_session_id e qi)) @
                      attempt_calls e (Suc 0) ''gemini-2.0-flash'' (question qi)
                        (fetch_history e (effective_session_id e qi))\<rparr>)
          | Inl e1 \<Rightarrow>
              (Inl (HTTPException 500 (''RAG invocation failed: '' @ str_exception e1)),
               w\<lparr>calls := calls w @ GetChatHistory (effective_session_id e qi) #
                      attempt_calls e 0 ''gemini-2.0-flash'' (question qi)
                        (fetch_history e (effective_session_id e qi)) @
                      attempt_calls e (Suc 0) ''gemini-2.0-flash'' (question qi)
                        (fetch_history e (effective_session_id e qi))\<rparr>)))"
  by (simp add: chat_def candidates_forced try_two outcome_0 outcome_1
      failure_detail_def log_call_def Let_def del: try_candidates.simps split: sum.splits)

lemma chat_calls:
  "calls (snd (chat e qi w)) =
     calls w @ GetChatHistory (effective_session_id e qi) #
     attempt_calls e 0 ''gemini-2.0-flash'' (question qi) (fetch_history e (effective_session_id e qi)) @
     (case candidate_outcome e qi 0 of
        Inr r \<Rightarrow> [InsertApplicationLogs (effective_session_id e qi) (question qi) (extract_answer r)
                     ''gemini-2.0-flash'']
      | Inl e0 \<Rightarrow>
          attempt_calls e (Suc 0) ''gemini-2.0-flash'' (question qi) (fetch_history e (effective_session_id e qi)) @
          (case candidate_outcome e qi (Suc 0) of
             Inr r \<Rightarrow> [InsertApplicationLogs (effective_session_id e qi) (question qi) (extract_answer r)
                          ''gemini-2.0-flash'']
           | Inl e1 \<Rightarrow> []))"
  by (simp add: chat_unfold respond_calls split: sum.splits)

lemma chat_result:
  "fst (chat e qi w) =
     (case candidate_outcome e qi 0 of
        Inr r \<Rightarrow> Inr \<lparr>answer = extract_answer r, response_session_id = effective_session_id e qi,
                       response_model = ''gemini-2.0-flash''\<rparr>
      | Inl e0 \<Rightarrow>
         (case candidate_outcome e qi (Suc 0) of
            Inr r \<Rightarrow> Inr \<lparr>answer = extract_answer r, response_session_id = effective_session_id e qi,
                           response_model = ''gemini-2.0-flash''\<rparr>
          | Inl e1 \<Rightarrow> Inl (HTTPException 500 (''RAG invocation failed: '' @ str_exception e1))))"
  by (simp add: chat_unfold respond_fst split: sum.splits)

lemma chat_logs_failed:
  assumes "candidate_outcome e qi 0 = Inr r \<or> (candidate_outcome e qi 0 = Inl e0 \<and> candidate_outcome e qi (Suc 0) = Inr r)"
    and "insert_application_logs e (effective_session_id e qi) (question qi) (extract_answer r) ''gemini-2.0-flash''
           = Some err"
  shows "application_logs (snd (chat e qi w)) = application_logs w"
  using assms by (auto simp: chat_unfold respond_logs_failed)

section \<open>Claims about the chat handler\<close>

text \<open>
  C2 (as amended). For every chat request the handler tries the entries of its candidate
  list, which holds the supported default \<^verbatim>\<open>gemini-2.0-flash\<close> twice (the requested
  model is replaced by the default before the list is built), until one succeeds. The
  first success gives the answer and no later candidate is tried; when the first fails
  the second is tried; when both fail the request fails with HTTP 500 whose detail
  carries the last error, and no answer is returned.
\<close>
theorem chat_fallback:
  "fst (chat e qi w) =
     (case candidate_outcome e qi 0 of
        Inr r \<Rightarrow> Inr \<lparr>answer = extract_answer r, response_session_id = effective_session_id e qi,
                       response_model = ''gemini-2.0-flash''\<rparr>
      | Inl e0 \<Rightarrow>
         (case candidate_outcome e qi 1 of
            Inr r \<Rightarrow> Inr \<lparr>answer = extract_answer r, response_session_id = effective_session_id e qi,
                           response_model = ''gemini-2.0-flash''\<rparr>
          | Inl e1 \<Rightarrow> Inl (HTTPException 500 (''RAG invocation failed: '' @ str_exception e1))))
   \<and> attempted (new_calls w (snd (chat e qi w))) =
     (case candidate_outcome e qi 0 of
        Inr r \<Rightarrow> [''gemini-2.0-flash'']
      | Inl e0 \<Rightarrow> [''gemini-2.0-flash'', ''gemini-2.0-flash''])"
proof
  show "fst (chat e qi w) =
     (case candidate_outcome e qi 0 of
        Inr r \<Rightarrow> Inr \<lparr>answer = extract_answer r, response_session_id = effective_session_id e qi,
                       response_model = ''gemini-2.0-flash''\<rparr>
      | Inl e0 \<Rightarrow>
         (case candidate_outcome e qi 1 of
            Inr r \<Rightarrow> Inr \<lparr>answer = extract_answer r, response_session_id = effective_session_id e qi,
                           response_model = ''gemini-2.0-flash''\<rparr>
          | Inl e1 \<Rightarrow> Inl (HTTPException 500 (''RAG invocation failed: '' @ str_exception e1))))"
    using chat_result [of e qi w] by (simp split: sum.splits)
  have "new_calls w (snd (chat e qi w)) = drop (length (calls w)) (calls (snd (chat e qi w)))"
    by (simp add: new_calls_def)
  then show "attempted (new_calls w (snd (chat e qi w))) =
     (case candidate_outcome e qi 0 of
        Inr r \<Rightarrow> [''gemini-2.0-flash'']
      | Inl e0 \<Rightarrow> [''gemini-2.0-flash'', ''gemini-2.0-flash''])"
    by (simp add: chat_calls attempted_append attempted_attempt split: sum.splits)
qed

lemma all_fail_0: "candidate_outcome env_all_fail query_pro 0 = Inl quota"
  by (simp add: candidate_outcome_def attempt_outcome_def get_rag_chain_def env_all_fail_def env_ok_def)

lemma all_fail_1: "candidate_outcome env_all_fail query_pro (Suc 0) = Inl timeout"
  by (simp add: candidate_outcome_def attempt_outcome_def get_rag_chain_def env_all_fail_def env_ok_def)

lemma ok_0: "candidate_outcome env_ok query_pro 0 = Inr (Dict [(''answer'', ''30 days'')] ''{answer: 30 days}'')"
  by (simp add: candidate_outcome_def attempt_outcome_def get_rag_chain_def env_ok_def)

lemma sid_ok: "effective_session_id env_ok query_pro = ''0b7e''"
  by (simp add: effective_session_id_def query_pro_def env_ok_def)

lemma second_ok_0: "candidate_outcome env_second_ok query_pro 0 = Inl quota"
  by (simp add: candidate_outcome_def attempt_outcome_def get_rag_chain_def env_second_ok_def env_ok_def)

lemma second_ok_1: "candidate_outcome env_second_ok query_pro (Suc 0) = Inr (NonDict ''30 days'')"
  by (simp add: candidate_outcome_def attempt_outcome_def get_rag_chain_def env_second_ok_def env_ok_def)

lemma sid_second_ok: "effective_session_id env_second_ok query_pro = ''0b7e''"
  by (simp add: effective_session_id_def query_pro_def env_second_ok_def env_ok_def)

theorem chat_fallback_witness:
  "fst (chat env_all_fail query_pro empty_world) = Inl (HTTPException 500 ''RAG invocation failed: timed out'')
   \<and> attempted (new_calls empty_world (snd (chat env_all_fail query_pro empty_world))) =
       [''gemini-2.0-flash'', ''gemini-2.0-flash'']
   \<and> fst (chat env_second_ok query_pro empty_world) =
       Inr \<lparr>answer = ''30 days'', response_session_id = ''0b7e'', response_model = ''gemini-2.0-flash''\<rparr>
   \<and> fst (chat env_ok query_pro empty_world) =
       Inr \<lparr>answer = ''30 days'', response_session_id = ''0b7e'', response_model = ''gemini-2.0-flash''\<rparr>
   \<and> attempted (new_calls empty_world (snd (chat env_ok query_pro empty_world))) = [''gemini-2.0-flash'']"
  using chat_fallback [of env_all_fail query_pro empty_world]
    chat_fallback [of env_second_ok query_pro empty_world]
    chat_fallback [of env_ok query_pro empty_world]
  by (simp add: all_fail_0 all_fail_1 timeout_def second_ok_0 second_ok_1 sid_second_ok
      ok_0 sid_ok extract_answer_def)

text \<open>
  C2 as stated fails: for a request that asks for \<^verbatim>\<open>gemini-2.0-pro\<close> and whose
  candidates all fail, the models tried are not the requested model followed by the
  default.
\<close>
theorem requested_model_not_attempted:
  "attempted (new_calls empty_world (snd (chat env_all_fail query_pro empty_world)))
     \<noteq> [model query_pro, ''gemini-2.0-flash'']"
  by (simp add: chat_calls new_calls_def empty_world_def all_fail_0 query_pro_def
      attempted_append attempted_attempt split: sum.splits)


text \<open>
  C3. A chat request whose requested model is not \<^verbatim>\<open>gemini-2.0-flash\<close> and which
  succeeds has \<^verbatim>\<open>gemini-2.0-flash\<close> in the \<^verbatim>\<open>model\<close> field of its response, never
  the requested value.
\<close>
theorem unsupported_model_downgraded:
  "fst (chat e qi w) = Inr resp \<Longrightarrow> model qi \<noteq> ''gemini-2.0-flash'' \<Longrightarrow>
     response_model resp = ''gemini-2.0-flash'' \<and> response_model resp \<noteq> model qi"
  using chat_result [of e qi w] by (auto split: sum.splits)

lemma chat_ok:
  "fst (chat env_ok query_pro empty_world) =
     Inr \<lparr>answer = ''30 days'', response_session_id = ''0b7e'', response_model = ''gemini-2.0-flash''\<rparr>"
  by (simp add: chat_result ok_0 extract_answer_def sid_ok)

theorem unsupported_model_downgraded_witness:
  "fst (chat env_ok query_pro empty_world) =
     Inr \<lparr>answer = ''30 days'', response_session_id = ''0b7e'', response_model = ''gemini-2.0-flash''\<rparr>
   \<and> model query_pro \<noteq> ''gemini-2.0-flash''
   \<and> response_model \<lparr>answer = ''30 days'', response_session_id = ''0b7e'', response_model = ''gemini-2.0-flash''\<rparr>
       = ''gemini-2.0-flash''
   \<and> response_model \<lparr>answer = ''30 days'', response_session_id = ''0b7e'', response_model = ''gemini-2.0-flash''\<rparr>
       \<noteq> model query_pro"
proof -
  have m: "model query_pro \<noteq> ''gemini-2.0-flash''" by (simp add: query_pro_def)
  show ?thesis
    using unsupported_model_downgraded [OF chat_ok m] chat_ok m by simp
qed

lemma get_rag_chain_history_free:
  "get_rag_chain (e\<lparr>get_chat_history := f\<rparr>) n c = get_rag_chain e n c"
  by (simp add: get_rag_chain_def)

lemma try_candidates_history_free:
  "try_candidates (e\<lparr>get_chat_history := f\<rparr>) q h n cs vars w = try_candidates e q h n cs vars w"
  by (induction e q h n cs vars w rule: try_candidates.induct)
     (simp_all add: Let_def get_rag_chain_history_free split: sum.splits)

lemma respond_history_free:
  "log_and_respond (e\<lparr>get_chat_history := f\<rparr>) sid q a m w = log_and_respond e sid q a m w"
  by (simp add: log_and_respond_def)

lemma chat_empty_history:
  assumes "get_chat_history e (effective_session_id e qi) = Inl err"
  shows "chat e qi w = chat (e\<lparr>get_chat_history := (\<lambda>_. Inr [])\<rparr>) qi w"
  using assms
  by (simp add: chat_def effective_session_id_def fetch_history_def try_candidates_history_free
      respond_history_free Let_def split: prod.splits)

lemma chat_invoked_histories:
  "set (invoked_histories (new_calls w (snd (chat e qi w)))) \<subseteq> {fetch_history e (effective_session_id e qi)}"
proof -
  have a: "\<And>n. set (invoked_histories (attempt_calls e n ''gemini-2.0-flash'' (question qi)
              (fetch_history e (effective_session_id e qi)))) \<subseteq> {fetch_history e (effective_session_id e qi)}"
    by (rule invoked_histories_attempt)
  show ?thesis
    using a [of 0] a [of "Suc 0"]
    by (auto simp: new_calls_def chat_calls invoked_histories_append split: sum.splits)
qed

lemma chat_invoked_when_answered:
  assumes "candidate_outcome e qi 0 = Inr r \<or> candidate_outcome e qi (Suc 0) = Inr r"
  shows "invoked_histories (new_calls w (snd (chat e qi w))) \<noteq> []"
proof (cases "candidate_outcome e qi 0")
  case (Inr r0)
  then have "invoked_histories (attempt_calls e 0 ''gemini-2.0-flash'' (question qi)
              (fetch_history e (effective_session_id e qi))) = [fetch_history e (effective_session_id e qi)]"
    by (simp add: outcome_0 invoked_histories_answered)
  then show ?thesis
    by (simp add: new_calls_def chat_calls invoked_histories_append)
next
  case (Inl e0)
  with assms have "candidate_outcome e qi (Suc 0) = Inr r" by simp
  then have "invoked_histories (attempt_calls e (Suc 0) ''gemini-2.0-flash'' (question qi)
              (fetch_history e (effective_session_id e qi))) = [fetch_history e (effective_session_id e qi)]"
    by (simp add: outcome_1 invoked_histories_answered)
  then show ?thesis
    using Inl by (simp add: new_calls_def chat_calls invoked_histories_append)
qed

text \<open>
  C6. When fetching the chat history raises, the handler behaves as if the history were
  empty: whenever the chain is invoked it receives the empty history, and if one of the
  candidates succeeds the chain has been invoked and the request returns a normal
  response.
\<close>
theorem history_failure_tolerated:
  assumes "get_chat_history e (effective_session_id e qi) = Inl err"
  shows "chat e qi w = chat (e\<lparr>get_chat_history := (\<lambda>_. Inr [])\<rparr>) qi w
     \<and> set (invoked_histories (new_calls w (snd (chat e qi w)))) \<subseteq> {[]}
     \<and> ((\<exists>r. candidate_outcome e qi 0 = Inr r \<or> candidate_outcome e qi 1 = Inr r)
          \<longrightarrow> (\<exists>resp. fst (chat e qi w) = Inr resp)
              \<and> invoked_histories (new_calls w (snd (chat e qi w))) \<noteq> [])"
proof -
  have h: "fetch_history e (effective_session_id e qi) = []"
    using assms by (simp add: fetch_history_def)
  have sub: "set (invoked_histories (new_calls w (snd (chat e qi w)))) \<subseteq> {[]}"
    using chat_invoked_histories [of w e qi] by (simp add: h)
  have ans: "(\<exists>r. candidate_outcome e qi 0 = Inr r \<or> candidate_outcome e qi 1 = Inr r)
          \<longrightarrow> (\<exists>resp. fst (chat e qi w) = Inr resp)
              \<and> invoked_histories (new_calls w (snd (chat e qi w))) \<noteq> []"
  proof
    assume "\<exists>r. candidate_outcome e qi 0 = Inr r \<or> candidate_outcome e qi 1 = Inr r"
    then obtain r where r: "candidate_outcome e qi 0 = Inr r \<or> candidate_outcome e qi (Suc 0) = Inr r"
      by auto
    then have "\<exists>resp. fst (chat e qi w) = Inr resp"
      by (auto simp: chat_result split: sum.splits)
    with chat_invoked_when_answered [OF r]
    show "(\<exists>resp. fst (chat e qi w) = Inr resp)
              \<and> invoked_histories (new_calls w (snd (chat e qi w))) \<noteq> []"
      by simp
  qed
  from chat_empty_history [OF assms] sub ans show ?thesis
    by (intro conjI)
qed

lemma no_history_0:
  "candidate_outcome env_no_history query_pro 0 = Inr (Dict [(''answer'', ''30 days'')] ''{answer: 30 days}'')"
  by (simp add: candidate_outcome_def attempt_outcome_def get_rag_chain_def env_no_history_def env_ok_def)

lemma sid_no_history: "effective_session_id env_no_history query_pro = ''0b7e''"
  by (simp add: effective_session_id_def query_pro_def env_no_history_def env_ok_def)

lemma no_chain_0: "candidate_outcome env_no_chain query_pro 0 = Inl bad_temperature"
  by (simp add: candidate_outcome_def attempt_outcome_def get_rag_chain_def env_no_chain_def)

lemma no_chain_1: "candidate_outcome env_no_chain query_pro (Suc 0) = Inl bad_temperature"
  by (simp add: candidate_outcome_def attempt_outcome_def get_rag_chain_def env_no_chain_def)

theorem history_failure_tolerated_witness:
  "get_chat_history env_no_history (effective_session_id env_no_history query_pro) = Inl db_down
   \<and> candidate_outcome env_no_history query_pro 0 = Inr (Dict [(''answer'', ''30 days'')] ''{answer: 30 days}'')
   \<and> set (invoked_histories (new_calls empty_world (snd (chat env_no_history query_pro empty_world)))) = {[]}
   \<and> fst (chat env_no_history query_pro empty_world) =
       Inr \<lparr>answer = ''30 days'', response_session_id = ''0b7e'', response_model = ''gemini-2.0-flash''\<rparr>"
proof -
  have h: "get_chat_history env_no_history (effective_session_id env_no_history query_pro) = Inl db_down"
    by (simp add: env_no_history_def)
  have r: "fst (chat env_no_history query_pro empty_world) =
       Inr \<lparr>answer = ''30 days'', response_session_id = ''0b7e'', response_model = ''gemini-2.0-flash''\<rparr>"
    by (simp add: chat_result no_history_0 sid_no_history extract_answer_def)
  note t = history_failure_tolerated [OF h, of empty_world, THEN conjunct2]
  from t have sub: "set (invoked_histories (new_calls empty_world (snd (chat env_no_history query_pro empty_world))))
      \<subseteq> {[]}"
    by (rule conjunct1)
  from t no_history_0
  have ne: "invoked_histories (new_calls empty_world (snd (chat env_no_history query_pro empty_world))) \<noteq> []"
    by blast
  from sub ne
  have "set (invoked_histories (new_calls empty_world (snd (chat env_no_history query_pro empty_world)))) = {[]}"
    by (cases "invoked_histories (new_calls empty_world (snd (chat env_no_history query_pro empty_world)))") auto
  with h r no_history_0 show ?thesis by simp
qed

text \<open>
  C7. When a candidate produced an answer and writing the chat log raises, the handler
  still returns the response with the answer, the session id and the model used; no log
  entry is written.
\<close>
theorem log_failure_tolerated:
  assumes "candidate_outcome e qi 0 = Inr r \<or> (candidate_outcome e qi 0 = Inl e0 \<and> candidate_outcome e qi 1 = Inr r)"
    and "insert_application_logs e (effective_session_id e qi) (question qi) (extract_answer r) ''gemini-2.0-flash''
           = Some err"
  shows "fst (chat e qi w) =
           Inr \<lparr>answer = extract_answer r, response_session_id = effective_session_id e qi,
                 response_model = ''gemini-2.0-flash''\<rparr>
         \<and> application_logs (snd (chat e qi w)) = application_logs w"
proof -
  from assms(1) have a: "candidate_outcome e qi 0 = Inr r
      \<or> (candidate_outcome e qi 0 = Inl e0 \<and> candidate_outcome e qi (Suc 0) = Inr r)"
    by simp
  then have res: "fst (chat e qi w) =
           Inr \<lparr>answer = extract_answer r, response_session_id = effective_session_id e qi,
                 response_model = ''gemini-2.0-flash''\<rparr>"
    by (auto simp: chat_result)
  with chat_logs_failed [OF a assms(2), of w] show ?thesis by simp
qed

theorem log_failure_tolerated_witness:
  "candidate_outcome env_no_log query_pro 0 = Inr (Dict [(''answer'', ''30 days'')] ''{answer: 30 days}'')
   \<and> insert_application_logs env_no_log ''0b7e'' ''What is the refund policy?'' ''30 days'' ''gemini-2.0-flash''
       = Some db_down
   \<and> fst (chat env_no_log query_pro empty_world) =
       Inr \<lparr>answer = ''30 days'', response_session_id = ''0b7e'', response_model = ''gemini-2.0-flash''\<rparr>
   \<and> application_logs (snd (chat env_no_log query_pro empty_world)) = []"
proof -
  have c: "candidate_outcome env_no_log query_pro 0 = Inr (Dict [(''answer'', ''30 days'')] ''{answer: 30 days}'')"
    by (simp add: candidate_outcome_def attempt_outcome_def get_rag_chain_def env_no_log_def env_ok_def)
  have x: "extract_answer (Dict [(''answer'', ''30 days'')] ''{answer: 30 days}'') = ''30 days''"
    by (simp add: extract_answer_def)
  have s: "effective_session_id env_no_log query_pro = ''0b7e''"
    by (simp add: effective_session_id_def query_pro_def env_no_log_def env_ok_def)
  have q: "question query_pro = ''What is the refund policy?''"
    by (simp add: query_pro_def)
  have l: "insert_application_logs env_no_log (effective_session_id env_no_log query_pro) (question query_pro)
             (extract_answer (Dict [(''answer'', ''30 days'')] ''{answer: 30 days}'')) ''gemini-2.0-flash'' = Some db_down"
    by (simp add: env_no_log_def)
  have a: "candidate_outcome env_no_log query_pro 0 = Inr (Dict [(''answer'', ''30 days'')] ''{answer: 30 days}'')
     \<or> (candidate_outcome env_no_log query_pro 0 = Inl quota
         \<and> candidate_outcome env_no_log query_pro 1 = Inr (Dict [(''answer'', ''30 days'')] ''{answer: 30 days}''))"
    using c by simp
  show ?thesis
    using log_failure_tolerated [OF a l, of empty_world] c l
    by (simp add: x s q empty_world_def)
qed

text \<open>
  C10. Both entries of the candidate list are \<^verbatim>\<open>gemini-2.0-flash\<close>; every candidate
  handed to \<^verbatim>\<open>get_rag_chain\<close> is \<^verbatim>\<open>gemini-2.0-flash\<close>, and whenever a chain is invoked
  its model is \<^verbatim>\<open>gemini-2.0-flash\<close>, so a requested model other than the default is never
  invoked.
\<close>
theorem only_default_model_invoked:
  "model_candidates (model qi) = [''gemini-2.0-flash'', ''gemini-2.0-flash'']
   \<and> set (attempted (new_calls w (snd (chat e qi w)))) = {''gemini-2.0-flash''}
   \<and> set (invoked_models (new_calls w (snd (chat e qi w)))) \<subseteq> {''gemini-2.0-flash''}
   \<and> (model qi \<noteq> ''gemini-2.0-flash'' \<longrightarrow>
        model qi \<notin> set (attempted (new_calls w (snd (chat e qi w))))
        \<and> model qi \<notin> set (invoked_models (new_calls w (snd (chat e qi w)))))"
proof -
  have a: "set (attempted (new_calls w (snd (chat e qi w)))) = {''gemini-2.0-flash''}"
    by (simp add: new_calls_def chat_calls attempted_append attempted_attempt split: sum.splits)
  have m: "\<And>n. set (invoked_models (attempt_calls e n ''gemini-2.0-flash'' (question qi)
              (fetch_history e (effective_session_id e qi)))) \<subseteq> {''gemini-2.0-flash''}"
    by (rule invoked_models_attempt)
  have b: "set (invoked_models (new_calls w (snd (chat e qi w)))) \<subseteq> {''gemini-2.0-flash''}"
    using m [of 0] m [of "Suc 0"]
    by (auto simp: new_calls_def chat_calls invoked_models_append split: sum.splits)
  from a b show ?thesis
    by (auto simp: candidates_forced)
qed

theorem only_default_model_invoked_witness:
  "model query_pro \<noteq> ''gemini-2.0-flash''
   \<and> model_candidates (model query_pro) = [''gemini-2.0-flash'', ''gemini-2.0-flash'']
   \<and> set (attempted (new_calls empty_world (snd (chat env_all_fail query_pro empty_world)))) = {''gemini-2.0-flash''}
   \<and> model query_pro \<notin> set (attempted (new_calls empty_world (snd (chat env_all_fail query_pro empty_world))))
   \<and> model query_pro \<notin> set (invoked_models (new_calls empty_world (snd (chat env_all_fail query_pro empty_world))))
   \<and> model query_pro \<notin> set (attempted (new_calls empty_world (snd (chat env_no_chain query_pro empty_world))))
   \<and> model query_pro \<notin> set (invoked_models (new_calls empty_world (snd (chat env_no_chain query_pro empty_world))))"
  using only_default_model_invoked [of query_pro empty_world env_all_fail]
    only_default_model_invoked [of query_pro empty_world env_no_chain]
  by (simp add: query_pro_def)

text \<open>
  When building the chain raises on both attempts, no chain is invoked at all and the
  request fails with HTTP 500 carrying that error.
\<close>

lemma no_chain_calls: "attempt_calls env_no_chain n c q h = [GetRagChain c]"
  by (simp add: attempt_calls_def get_rag_chain_def env_no_chain_def)

lemma nothing_invoked_without_chain:
  "invoked_models (new_calls empty_world (snd (chat env_no_chain query_pro empty_world))) = []
   \<and> fst (chat env_no_chain query_pro empty_world) =
       Inl (HTTPException 500 ''RAG invocation failed: temperature out of range'')"
  by (simp add: chat_result chat_calls no_chain_0 no_chain_1 no_chain_calls new_calls_def
      empty_world_def bad_temperature_def)

section \<open>Claims about document upload\<close>

lemma finally_removes: "path \<notin> files (upload_finally path w)"
  by (simp add: upload_finally_def log_call_def)

lemma finally_documents: "documents (upload_finally path w) = documents w"
  by (simp add: upload_finally_def log_call_def)

lemma finally_calls:
  "calls (upload_finally path w) = calls w @ (if path \<in> files w then [Remove path] else [])"
  by (simp add: upload_finally_def log_call_def)

lemma upload_allowed:
  assumes "file_extension filename \<in> set allowed_extensions"
  shows "upload_and_index_document e filename w =
           (fst (upload_body e filename
                   (if documents_dir \<notin> files w then w\<lparr>files := insert documents_dir (files w)\<rparr> else w)),
            upload_finally (temp_file_path filename)
              (snd (upload_body e filename
                   (if documents_dir \<notin> files w then w\<lparr>files := insert documents_dir (files w)\<rparr> else w))))"
  using assms by (simp add: upload_and_index_document_def Let_def split: prod.splits)

text \<open>
  C5. For every upload that passes the extension check, the temporary file is gone when
  the handler is left, whatever the helpers did: whether the upload succeeded, indexing
  failed, or any helper raised.
\<close>
theorem temp_file_removed:
  "file_extension filename \<in> set allowed_extensions \<Longrightarrow>
     temp_file_path filename \<notin> files (snd (upload_and_index_document e filename w))"
  by (simp add: upload_allowed finally_removes)

lemma pdf_allowed: "file_extension ''a.pdf'' \<in> set allowed_extensions"
  by code_simp

lemma exe_refused: "file_extension ''x.exe'' \<notin> set allowed_extensions"
  by code_simp

lemma temp_a_pdf: "temp_file_path ''a.pdf'' = ''data/documents/temp_a.pdf''"
  by (simp add: temp_file_path_def path_join_def documents_dir_def)

theorem temp_file_removed_witness:
  "file_extension ''a.pdf'' \<in> set allowed_extensions
   \<and> ''data/documents/temp_a.pdf'' \<notin> files (snd (upload_and_index_document env_ok ''a.pdf'' empty_world))
   \<and> ''data/documents/temp_a.pdf'' \<notin> files (snd (upload_and_index_document env_index_fails ''a.pdf'' empty_world))"
  using temp_file_removed [OF pdf_allowed, of env_ok empty_world]
    temp_file_removed [OF pdf_allowed, of env_index_fails empty_world] pdf_allowed
  by (simp add: temp_a_pdf)

text \<open>
  C8. An upload whose extension (as the handler reads it: \<^verbatim>\<open>os.path.splitext\<close>, in lower
  case) is not one of \<^verbatim>\<open>.pdf\<close>, \<^verbatim>\<open>.docx\<close>, \<^verbatim>\<open>.html\<close> is rejected with HTTP 400
  and leaves the world as it was: no file is written, no record is created, no helper
  is called.
\<close>
theorem disallowed_extension_rejected:
  "file_extension filename \<notin> set allowed_extensions \<Longrightarrow>
     upload_and_index_document e filename w =
       (Inl (HTTPException 400 ''Unsupported file type. Allowed types are: .pdf, .docx, .html''), w)
     \<and> http_status (fst (upload_and_index_document e filename w)) = 400"
  by (simp add: upload_and_index_document_def allowed_extensions_def)

theorem disallowed_extension_rejected_witness:
  "file_extension ''x.exe'' \<notin> set allowed_extensions
   \<and> upload_and_index_document env_ok ''x.exe'' empty_world =
       (Inl (HTTPException 400 ''Unsupported file type. Allowed types are: .pdf, .docx, .html''), empty_world)"
  using disallowed_extension_rejected [OF exe_refused, of env_ok empty_world] exe_refused
  by simp


lemma upload_body_calls:
  assumes "copyfileobj e (temp_file_path filename) = Written"
    and "insert_document_record e filename = Inr fid"
  shows "calls (snd (upload_body e filename w)) =
           calls w @ [SaveUpload (temp_file_path filename), InsertDocumentRecord filename,
                      IndexDocumentToChroma (temp_file_path filename) fid] @
           (if index_document_to_chroma e (temp_file_path filename) fid = Inr False
            then [DeleteDocumentRecord fid] else [])"
  using assms
  by (simp add: upload_body_def Let_def log_call_def db_insert_document_def db_delete_document_def
      chroma_index_def split: sum.splits)

lemma upload_body_indexed:
  assumes "copyfileobj e (temp_file_path filename) = Written"
    and "insert_document_record e filename = Inr fid"
    and "index_document_to_chroma e (temp_file_path filename) fid = Inr True"
  shows "fst (upload_body e filename w) =
           Inr [(''message'', ''File '' @ filename @ '' has been successfully uploaded and indexed.''),
                (''file_id'', fid)]"
    and "documents (snd (upload_body e filename w)) = documents w @ [(fid, filename)]"
  using assms
  by (simp_all add: upload_body_def Let_def log_call_def db_insert_document_def chroma_index_def)

lemma upload_body_index_raises:
  assumes "copyfileobj e (temp_file_path filename) = Written"
    and "insert_document_record e filename = Inr fid"
    and "index_document_to_chroma e (temp_file_path filename) fid = Inl err"
  shows "fst (upload_body e filename w) = Inl (Propagated err)"
    and "documents (snd (upload_body e filename w)) = documents w @ [(fid, filename)]"
  using assms
  by (simp_all add: upload_body_def Let_def log_call_def db_insert_document_def)

lemma upload_body_rollback:
  assumes "copyfileobj e (temp_file_path filename) = Written"
    and "insert_document_record e filename = Inr fid"
    and "index_document_to_chroma e (temp_file_path filename) fid = Inr False"
    and "delete_document_record e fid = Inr deleted"
  shows "fst (upload_body e filename w) = Inl (HTTPException 500 (''Failed to index '' @ filename @ ''.''))"
    and "deleted \<Longrightarrow> documents (snd (upload_body e filename w)) = filter (\<lambda>d. fst d \<noteq> fid) (documents w)"
  using assms
  by (simp_all add: upload_body_def Let_def log_call_def db_insert_document_def db_delete_document_def)

lemma upload_calls:
  assumes "file_extension filename \<in> set allowed_extensions"
    and "copyfileobj e (temp_file_path filename) = Written"
    and "insert_document_record e filename = Inr fid"
  shows "DeleteDocumentRecord fid \<in> set (new_calls w (snd (upload_and_index_document e filename w)))
           \<longleftrightarrow> index_document_to_chroma e (temp_file_path filename) fid = Inr False"
  by (simp add: upload_allowed [OF assms(1)] new_calls_def finally_calls
      upload_body_calls [OF assms(2) assms(3)])

text \<open>
  C1 (as amended). For an upload with an allowed extension whose file was saved and whose
  DocumentRecord was created: if indexing returns false, the handler calls
  \<^verbatim>\<open>delete_document_record\<close> on the record just created and, when that call returns,
  fails with HTTP 500; the record is gone when that call reports success. If indexing
  returns true no rollback is made, the record stays and the upload succeeds. If indexing
  raises, no rollback is made either: the record stays and the exception leaves the
  handler. Hence, when indexing returns and the rollback deletion it may need succeeds,
  the record exists afterwards if and only if indexing succeeded.
\<close>
theorem index_failure_rolls_back:
  assumes "file_extension filename \<in> set allowed_extensions"
    and "copyfileobj e (temp_file_path filename) = Written"
    and "insert_document_record e filename = Inr fid"
  shows "(index_document_to_chroma e (temp_file_path filename) fid = Inr False \<longrightarrow>
            DeleteDocumentRecord fid \<in> set (new_calls w (snd (upload_and_index_document e filename w)))
            \<and> (\<forall>deleted. delete_document_record e fid = Inr deleted \<longrightarrow>
                  fst (upload_and_index_document e filename w) =
                    Inl (HTTPException 500 (''Failed to index '' @ filename @ ''.''))
                  \<and> http_status (fst (upload_and_index_document e filename w)) = 500)
            \<and> (delete_document_record e fid = Inr True \<longrightarrow>
                  fid \<notin> document_ids (snd (upload_and_index_document e filename w))))
       \<and> (index_document_to_chroma e (temp_file_path filename) fid = Inr True \<longrightarrow>
            fst (upload_and_index_document e filename w) =
              Inr [(''message'', ''File '' @ filename @ '' has been successfully uploaded and indexed.''),
                   (''file_id'', fid)]
            \<and> DeleteDocumentRecord fid \<notin> set (new_calls w (snd (upload_and_index_document e filename w)))
            \<and> fid \<in> document_ids (snd (upload_and_index_document e filename w)))
       \<and> (\<forall>err. index_document_to_chroma e (temp_file_path filename) fid = Inl err \<longrightarrow>
            fst (upload_and_index_document e filename w) = Inl (Propagated err)
            \<and> DeleteDocumentRecord fid \<notin> set (new_calls w (snd (upload_and_index_document e filename w)))
            \<and> fid \<in> document_ids (snd (upload_and_index_document e filename w)))
       \<and> (\<forall>success. index_document_to_chroma e (temp_file_path filename) fid = Inr success
              \<and> (success \<or> delete_document_record e fid = Inr True) \<longrightarrow>
            (fid \<in> document_ids (snd (upload_and_index_document e filename w)) \<longleftrightarrow> success))"
proof -
  note calls = upload_calls [OF assms, of w]
  have failed: "index_document_to_chroma e (temp_file_path filename) fid = Inr False \<longrightarrow>
            DeleteDocumentRecord fid \<in> set (new_calls w (snd (upload_and_index_document e filename w)))
            \<and> (\<forall>deleted. delete_document_record e fid = Inr deleted \<longrightarrow>
                  fst (upload_and_index_document e filename w) =
                    Inl (HTTPException 500 (''Failed to index '' @ filename @ ''.''))
                  \<and> http_status (fst (upload_and_index_document e filename w)) = 500)
            \<and> (delete_document_record e fid = Inr True \<longrightarrow>
                  fid \<notin> document_ids (snd (upload_and_index_document e filename w)))"
  proof
    assume idx: "index_document_to_chroma e (temp_file_path filename) fid = Inr False"
    have a: "\<forall>deleted. delete_document_record e fid = Inr deleted \<longrightarrow>
                  fst (upload_and_index_document e filename w) =
                    Inl (HTTPException 500 (''Failed to index '' @ filename @ ''.''))
                  \<and> http_status (fst (upload_and_index_document e filename w)) = 500"
      using upload_body_rollback(1) [OF assms(2) assms(3) idx]
      by (simp add: upload_allowed [OF assms(1)])
    have b: "delete_document_record e fid = Inr True \<longrightarrow>
                  fid \<notin> document_ids (snd (upload_and_index_document e filename w))"
      using upload_body_rollback(2) [OF assms(2) assms(3) idx]
      by (auto simp: upload_allowed [OF assms(1)] finally_documents document_ids_def)
    from calls idx a b
    show "DeleteDocumentRecord fid \<in> set (new_calls w (snd (upload_and_index_document e filename w)))
            \<and> (\<forall>deleted. delete_document_record e fid = Inr deleted \<longrightarrow>
                  fst (upload_and_index_document e filename w) =
                    Inl (HTTPException 500 (''Failed to index '' @ filename @ ''.''))
                  \<and> http_status (fst (upload_and_index_document e filename w)) = 500)
            \<and> (delete_document_record e fid = Inr True \<longrightarrow>
                  fid \<notin> document_ids (snd (upload_and_index_document e filename w)))"
      by simp
  qed
  have indexed: "index_document_to_chroma e (temp_file_path filename) fid = Inr True \<longrightarrow>
            fst (upload_and_index_document e filename w) =
              Inr [(''message'', ''File '' @ filename @ '' has been successfully uploaded and indexed.''),
                   (''file_id'', fid)]
            \<and> DeleteDocumentRecord fid \<notin> set (new_calls w (snd (upload_and_index_document e filename w)))
            \<and> fid \<in> document_ids (snd (upload_and_index_document e filename w))"
  proof
    assume idx: "index_document_to_chroma e (temp_file_path filename) fid = Inr True"
    show "fst (upload_and_index_document e filename w) =
              Inr [(''message'', ''File '' @ filename @ '' has been successfully uploaded and indexed.''),
                   (''file_id'', fid)]
            \<and> DeleteDocumentRecord fid \<notin> set (new_calls w (snd (upload_and_index_document e filename w)))
            \<and> fid \<in> document_ids (snd (upload_and_index_document e filename w))"
      using calls idx upload_body_indexed [OF assms(2) assms(3) idx]
      by (simp add: upload_allowed [OF assms(1)] finally_documents document_ids_def)
  qed
  have raised: "\<forall>err. index_document_to_chroma e (temp_file_path filename) fid = Inl err \<longrightarrow>
            fst (upload_and_index_document e filename w) = Inl (Propagated err)
            \<and> DeleteDocumentRecord fid \<notin> set (new_calls w (snd (upload_and_index_document e filename w)))
            \<and> fid \<in> document_ids (snd (upload_and_index_document e filename w))"
  proof (intro allI impI)
    fix err
    assume idx: "index_document_to_chroma e (temp_file_path filename) fid = Inl err"
    show "fst (upload_and_index_document e filename w) = Inl (Propagated err)
            \<and> DeleteDocumentRecord fid \<notin> set (new_calls w (snd (upload_and_index_document e filename w)))
            \<and> fid \<in> document_ids (snd (upload_and_index_document e filename w))"
      using calls idx upload_body_index_raises [OF assms(2) assms(3) idx]
      by (simp add: upload_allowed [OF assms(1)] finally_documents document_ids_def)
  qed
  have iff: "\<forall>success. index_document_to_chroma e (temp_file_path filename) fid = Inr success
              \<and> (success \<or> delete_document_record e fid = Inr True) \<longrightarrow>
            (fid \<in> document_ids (snd (upload_and_index_document e filename w)) \<longleftrightarrow> success)"
    using failed indexed by auto
  from failed indexed raised iff show ?thesis
    by (intro conjI)
qed

theorem index_failure_rolls_back_witness:
  "file_extension ''a.pdf'' \<in> set allowed_extensions
   \<and> copyfileobj env_index_fails (temp_file_path ''a.pdf'') = Written
   \<and> insert_document_record env_index_fails ''a.pdf'' = Inr ''7''
   \<and> index_document_to_chroma env_index_fails (temp_file_path ''a.pdf'') ''7'' = Inr False
   \<and> delete_document_record env_index_fails ''7'' = Inr True
   \<and> DeleteDocumentRecord ''7'' \<in> set (new_calls empty_world
         (snd (upload_and_index_document env_index_fails ''a.pdf'' empty_world)))
   \<and> fst (upload_and_index_document env_index_fails ''a.pdf'' empty_world) =
        Inl (HTTPException 500 ''Failed to index a.pdf.'')
   \<and> ''7'' \<notin> document_ids (snd (upload_and_index_document env_index_fails ''a.pdf'' empty_world))
   \<and> index_document_to_chroma env_ok (temp_file_path ''a.pdf'') ''7'' = Inr True
   \<and> ''7'' \<in> document_ids (snd (upload_and_index_document env_ok ''a.pdf'' empty_world))"
proof -
  have a: "copyfileobj env_index_fails (temp_file_path ''a.pdf'') = Written"
    and b: "insert_document_record env_index_fails ''a.pdf'' = Inr ''7''"
    and c: "index_document_to_chroma env_index_fails (temp_file_path ''a.pdf'') ''7'' = Inr False"
    and d: "delete_document_record env_index_fails ''7'' = Inr True"
    by (simp_all add: env_index_fails_def env_ok_def)
  have a': "copyfileobj env_ok (temp_file_path ''a.pdf'') = Written"
    and b': "insert_document_record env_ok ''a.pdf'' = Inr ''7''"
    and c': "index_document_to_chroma env_ok (temp_file_path ''a.pdf'') ''7'' = Inr True"
    by (simp_all add: env_ok_def)
  show ?thesis
    using index_failure_rolls_back [OF pdf_allowed a b, of empty_world]
      index_failure_rolls_back [OF pdf_allowed a' b', of empty_world] pdf_allowed a b c d c'
    by auto
qed

text \<open>
  C1 as stated fails: when indexing raises instead of returning false, the handler makes
  no rollback call, although \<^verbatim>\<open>delete_document_record\<close> would have succeeded; the
  exception leaves the handler and the DocumentRecord of the upload is still there,
  though indexing did not succeed.
\<close>
theorem index_exception_leaves_record:
  "file_extension ''a.pdf'' \<in> set allowed_extensions
   \<and> insert_document_record env_index_raises ''a.pdf'' = Inr ''7''
   \<and> index_document_to_chroma env_index_raises (temp_file_path ''a.pdf'') ''7'' = Inl chroma_down
   \<and> delete_document_record env_index_raises ''7'' = Inr True
   \<and> fst (upload_and_index_document env_index_raises ''a.pdf'' empty_world) = Inl (Propagated chroma_down)
   \<and> DeleteDocumentRecord ''7'' \<notin> set (new_calls empty_world
         (snd (upload_and_index_document env_index_raises ''a.pdf'' empty_world)))
   \<and> ''7'' \<in> document_ids (snd (upload_and_index_document env_index_raises ''a.pdf'' empty_world))"
proof -
  have a: "copyfileobj env_index_raises (temp_file_path ''a.pdf'') = Written"
    and b: "insert_document_record env_index_raises ''a.pdf'' = Inr ''7''"
    and c: "index_document_to_chroma env_index_raises (temp_file_path ''a.pdf'') ''7'' = Inl chroma_down"
    and d: "delete_document_record env_index_raises ''7'' = Inr True"
    by (simp_all add: env_index_raises_def env_ok_def)
  have "fst (upload_and_index_document env_index_raises ''a.pdf'' empty_world) = Inl (Propagated chroma_down)"
    using upload_body_index_raises(1) [OF a b c]
    by (simp add: upload_allowed [OF pdf_allowed])
  moreover have "''7'' \<in> document_ids (snd (upload_and_index_document env_index_raises ''a.pdf'' empty_world))"
    using upload_body_index_raises(2) [OF a b c]
    by (simp add: upload_allowed [OF pdf_allowed] finally_documents document_ids_def)
  moreover have "DeleteDocumentRecord ''7'' \<notin> set (new_calls empty_world
         (snd (upload_and_index_document env_index_raises ''a.pdf'' empty_world)))"
    using upload_calls [OF pdf_allowed a b, of empty_world] c by simp
  ultimately show ?thesis
    using pdf_allowed b c d by simp
qed

section \<open>Claims about document deletion\<close>

lemma delete_store_failed:
  assumes "delete_doc_from_chroma e fid \<noteq> Inr True"
  shows "snd (delete_document e fid w) = log_call (DeleteDocFromChroma fid) w"
  using assms by (auto simp: delete_document_def Let_def split: sum.splits)

lemma delete_calls_first:
  "\<exists>evs. calls (snd (delete_document e fid w)) = calls w @ DeleteDocFromChroma fid # evs"
  by (auto simp: delete_document_def Let_def log_call_def chroma_delete_def db_delete_document_def
      split: sum.splits)

text \<open>
  C4. A delete request first calls the deletion from the Document Store; unless that
  call returns true, nothing else is called and the DocumentRecords are left unchanged,
  also for a file id that no store knows. The records change only if the store deletion
  succeeded.
\<close>
theorem store_deletion_first:
  "(\<exists>evs. new_calls w (snd (delete_document e fid w)) = DeleteDocFromChroma fid # evs)
   \<and> (delete_doc_from_chroma e fid \<noteq> Inr True \<longrightarrow>
        documents (snd (delete_document e fid w)) = documents w
        \<and> new_calls w (snd (delete_document e fid w)) = [DeleteDocFromChroma fid])
   \<and> (documents (snd (delete_document e fid w)) \<noteq> documents w \<longrightarrow>
        delete_doc_from_chroma e fid = Inr True)"
proof -
  obtain evs where "calls (snd (delete_document e fid w)) = calls w @ DeleteDocFromChroma fid # evs"
    using delete_calls_first by blast
  then have first: "\<exists>evs. new_calls w (snd (delete_document e fid w)) = DeleteDocFromChroma fid # evs"
    by (simp add: new_calls_def)
  have kept: "delete_doc_from_chroma e fid \<noteq> Inr True \<longrightarrow>
        documents (snd (delete_document e fid w)) = documents w
        \<and> new_calls w (snd (delete_document e fid w)) = [DeleteDocFromChroma fid]"
    by (simp add: delete_store_failed new_calls_def log_call_def)
  from first kept show ?thesis by blast
qed

theorem store_deletion_first_witness:
  "delete_doc_from_chroma env_chroma_fails ''404'' \<noteq> Inr True
   \<and> documents (snd (delete_document env_chroma_fails ''404'' world_with_doc)) = documents world_with_doc
   \<and> new_calls world_with_doc (snd (delete_document env_chroma_fails ''404'' world_with_doc))
       = [DeleteDocFromChroma ''404'']
   \<and> delete_doc_from_chroma env_chroma_fails ''7'' \<noteq> Inr True
   \<and> documents (snd (delete_document env_chroma_fails ''7'' world_with_doc)) = [(''7'', ''a.pdf'')]"
proof -
  have a: "delete_doc_from_chroma env_chroma_fails ''404'' \<noteq> Inr True"
    and b: "delete_doc_from_chroma env_chroma_fails ''7'' \<noteq> Inr True"
    by (simp_all add: env_chroma_fails_def)
  have d: "documents world_with_doc = [(''7'', ''a.pdf'')]"
    by (simp add: world_with_doc_def empty_world_def)
  show ?thesis
    using store_deletion_first [of world_with_doc env_chroma_fails "''404''"]
      store_deletion_first [of world_with_doc env_chroma_fails "''7''"] a b d
    by simp
qed

text \<open>
  C9 (as amended). The delete handler never raises an HTTP error itself. Whenever the
  deletion helpers return their result, it answers with status 200: an \<^verbatim>\<open>error\<close>
  payload when the store deletion returns false, or when the store deletion succeeds and
  the metadata deletion returns false, and a \<^verbatim>\<open>message\<close> payload when both succeed. An
  exception raised by either helper is not caught: it leaves the handler and the
  request is answered with a server error.
\<close>
theorem delete_reports_in_band:
  "(\<forall>code detail. fst (delete_document e fid w) \<noteq> Inl (HTTPException code detail))
   \<and> (delete_doc_from_chroma e fid = Inr False \<longrightarrow>
        fst (delete_document e fid w) =
          Inr [(''error'', ''Failed to delete document with file_id '' @ fid @ '' from Chroma.'')]
        \<and> http_status (fst (delete_document e fid w)) = 200)
   \<and> (delete_doc_from_chroma e fid = Inr True \<and> delete_document_record e fid = Inr False \<longrightarrow>
        fst (delete_document e fid w) =
          Inr [(''error'', ''Deleted from Chroma but failed to delete document with file_id '' @ fid
                           @ '' from the database.'')]
        \<and> http_status (fst (delete_document e fid w)) = 200)
   \<and> (delete_doc_from_chroma e fid = Inr True \<and> delete_document_record e fid = Inr True \<longrightarrow>
        fst (delete_document e fid w) =
          Inr [(''message'', ''Successfully deleted document with file_id '' @ fid @ '' from the system.'')]
        \<and> http_status (fst (delete_document e fid w)) = 200)
   \<and> (\<forall>err. delete_doc_from_chroma e fid = Inl err \<longrightarrow>
        fst (delete_document e fid w) = Inl (Propagated err)
        \<and> http_status (fst (delete_document e fid w)) = 500)
   \<and> (\<forall>err. delete_doc_from_chroma e fid = Inr True \<and> delete_document_record e fid = Inl err \<longrightarrow>
        fst (delete_document e fid w) = Inl (Propagated err)
        \<and> http_status (fst (delete_document e fid w)) = 500)"
  by (auto simp: delete_document_def Let_def split: sum.splits)

theorem delete_reports_in_band_witness:
  "delete_doc_from_chroma env_chroma_fails ''7'' = Inr False
   \<and> fst (delete_document env_chroma_fails ''7'' world_with_doc) =
       Inr [(''error'', ''Failed to delete document with file_id 7 from Chroma.'')]
   \<and> delete_doc_from_chroma env_db_delete_fails ''7'' = Inr True
   \<and> delete_document_record env_db_delete_fails ''7'' = Inr False
   \<and> fst (delete_document env_db_delete_fails ''7'' world_with_doc) =
       Inr [(''error'', ''Deleted from Chroma but failed to delete document with file_id 7 from the database.'')]
   \<and> delete_doc_from_chroma env_ok ''7'' = Inr True
   \<and> delete_document_record env_ok ''7'' = Inr True
   \<and> fst (delete_document env_ok ''7'' world_with_doc) =
       Inr [(''message'', ''Successfully deleted document with file_id 7 from the system.'')]
   \<and> http_status (fst (delete_document env_ok ''7'' world_with_doc)) = 200
   \<and> delete_doc_from_chroma env_chroma_raises ''7'' = Inl chroma_down
   \<and> fst (delete_document env_chroma_raises ''7'' world_with_doc) = Inl (Propagated chroma_down)"
proof -
  have a: "delete_doc_from_chroma env_chroma_fails ''7'' = Inr False"
    and b: "delete_doc_from_chroma env_db_delete_fails ''7'' = Inr True"
    and c: "delete_document_record env_db_delete_fails ''7'' = Inr False"
    and d: "delete_doc_from_chroma env_ok ''7'' = Inr True"
    and e: "delete_document_record env_ok ''7'' = Inr True"
    and f: "delete_doc_from_chroma env_chroma_raises ''7'' = Inl chroma_down"
    by (simp_all add: env_chroma_fails_def env_db_delete_fails_def env_chroma_raises_def env_ok_def)
  show ?thesis
    using delete_reports_in_band [of env_chroma_fails "''7''" world_with_doc]
      delete_reports_in_band [of env_db_delete_fails "''7''" world_with_doc]
      delete_reports_in_band [of env_ok "''7''" world_with_doc]
      delete_reports_in_band [of env_chroma_raises "''7''" world_with_doc] a b c d e f
    by simp
qed

text \<open>
  C9 as stated fails: when the store deletion raises, the request is not answered with
  status 200; the exception leaves the handler and the answer is a server error.
\<close>
theorem delete_exception_not_in_band:
  "delete_doc_from_chroma env_chroma_raises ''7'' = Inl chroma_down
   \<and> fst (delete_document env_chroma_raises ''7'' world_with_doc) = Inl (Propagated chroma_down)
   \<and> http_status (fst (delete_document env_chroma_raises ''7'' world_with_doc)) = 500
   \<and> http_status (fst (delete_document env_chroma_raises ''7'' world_with_doc)) \<noteq> 200"
  by (simp add: delete_document_def Let_def env_chroma_raises_def env_ok_def)

end
